theory Spec2Isabelle
  imports Complex_Main "HOL-Library.Sublist"
begin

section \<open>JavaScript numbers\<close>

text \<open>
  A JavaScript \<^verbatim>\<open>number\<close> is an IEEE 754 binary64 value: a finite value (a real that
  binary64 represents), one of the two zeros, an infinity, or NaN.  \<open>Fin 0\<close> is the
  positive zero.  Comparison, remainder and truthiness are exact operations on these
  values; addition rounds its exact result to the nearest binary64 value, ties to even.
\<close>

datatype number = NaN | PosInf | NegInf | NegZero | Fin real

fun fin_val :: "number \<Rightarrow> real" where
  "fin_val (Fin x) = x"
| "fin_val _ = 0"

text \<open>The relational operators \<^verbatim>\<open><\<close>, \<^verbatim>\<open>>\<close>, \<^verbatim>\<open><=\<close>: every comparison with NaN is false.\<close>

fun js_lt :: "number \<Rightarrow> number \<Rightarrow> bool" where
  "js_lt NaN _ = False"
| "js_lt _ NaN = False"
| "js_lt PosInf _ = False"
| "js_lt _ NegInf = False"
| "js_lt NegInf _ = True"
| "js_lt _ PosInf = True"
| "js_lt a b = (fin_val a < fin_val b)"




text \<open>\<^verbatim>\<open>ToBoolean\<close> of a number: the zeros and NaN are falsy.\<close>

fun js_truthy :: "number \<Rightarrow> bool" where
  "js_truthy NaN = False"
| "js_truthy NegZero = False"
| "js_truthy (Fin x) = (x \<noteq> 0)"
| "js_truthy _ = True"

definition trunc :: "real \<Rightarrow> int" where
  "trunc x = (if 0 \<le> x then \<lfloor>x\<rfloor> else \<lceil>x\<rceil>)"

text \<open>
  The remainder operator \<^verbatim>\<open>%\<close>: the result has the sign of the dividend and is exact
  (it is always representable).
\<close>

fun js_rem :: "number \<Rightarrow> number \<Rightarrow> number" where
  "js_rem NaN d = NaN"
| "js_rem n NaN = NaN"
| "js_rem PosInf d = NaN"
| "js_rem NegInf d = NaN"
| "js_rem n PosInf = n"
| "js_rem n NegInf = n"
| "js_rem n NegZero = NaN"
| "js_rem NegZero (Fin y) = (if y = 0 then NaN else NegZero)"
| "js_rem (Fin x) (Fin y) =
     (if y = 0 then NaN
      else if x = 0 then Fin 0
      else let r = x - y * of_int (trunc (x / y))
           in if r = 0 \<and> x < 0 then NegZero else Fin r)"

text \<open>Rounding of an exact real to binary64: 53 significant bits, ties to even.\<close>

definition round_half_even :: "real \<Rightarrow> int" where
  "round_half_even y =
     (let f = \<lfloor>y\<rfloor>; d = y - of_int f
      in if d < 1 / 2 then f else if 1 / 2 < d then f + 1 else if even f then f else f + 1)"

definition round_double :: "real \<Rightarrow> number" where
  "round_double x =
     (if x = 0 then Fin 0
      else let e = max \<lfloor>log 2 \<bar>x\<bar>\<rfloor> (- 1022);
               q = 2 powi (e - 52);
               r = of_int (round_half_even (x / q)) * q
           in if 2 ^ 1024 \<le> r then PosInf
              else if r \<le> - (2 ^ 1024) then NegInf
              else if r = 0 then (if x < 0 then NegZero else Fin 0)
              else Fin r)"

text \<open>A finite value is a binary64 value when rounding leaves it unchanged.\<close>

definition is_double :: "real \<Rightarrow> bool" where
  "is_double x = (round_double x = Fin x)"

fun js_add :: "number \<Rightarrow> number \<Rightarrow> number" where
  "js_add NaN _ = NaN"
| "js_add _ NaN = NaN"
| "js_add PosInf NegInf = NaN"
| "js_add NegInf PosInf = NaN"
| "js_add PosInf _ = PosInf"
| "js_add _ PosInf = PosInf"
| "js_add NegInf _ = NegInf"
| "js_add _ NegInf = NegInf"
| "js_add NegZero NegZero = NegZero"
| "js_add NegZero (Fin y) = Fin y"
| "js_add (Fin x) NegZero = Fin x"
| "js_add (Fin x) (Fin y) = round_double (x + y)"

section \<open>Helpers (\<^verbatim>\<open>src/lib/utils/helpers.ts\<close>)\<close>

text \<open>
  \<^verbatim>\<open>normalizeHeading\<close>: remainder by 360, plus 360 when negative, and \<^verbatim>\<open>|| 0\<close> to turn
  the negative zero (and NaN) into 0.
\<close>

definition normalizeHeading :: "number \<Rightarrow> number" where
  "normalizeHeading heading =
     (let normalized = js_rem heading (Fin 360);
          normalized = (if js_lt normalized (Fin 0) then js_add normalized (Fin 360)
                        else normalized)
      in if js_truthy normalized then normalized else Fin 0)"

section \<open>Thrown values\<close>

text \<open>
  Anything a function throws, or a promise rejects with: an \<^verbatim>\<open>Error\<close> instance with its
  message, or some other value (given by its \<^verbatim>\<open>String(...)\<close>).  A function that can throw
  returns \<open>thrown + 'a\<close>, \<open>Inl\<close> for the thrown value.
\<close>

datatype thrown = Error string | NonError string

section \<open>Geospatial utilities (\<^verbatim>\<open>src/lib/utils/geo.ts\<close>)\<close>

text \<open>
  Coordinates, distances and radii are taken as reals: the trigonometric functions are
  not modelled at binary64 precision.
\<close>

record LngLat =
  lng :: real
  lat :: real

text \<open>
  The \<^verbatim>\<open>LngLat\<close> constructor of maplibre-gl rejects a latitude outside \<open>[-90, 90]\<close> (and
  NaN, which the reals do not have).
\<close>

definition new_LngLat :: "real \<Rightarrow> real \<Rightarrow> thrown + LngLat" where
  "new_LngLat x y =
     (if 90 < y \<or> y < - 90
      then Inl (Error ''Invalid LngLat latitude value: must be between -90 and 90'')
      else Inr \<lparr>lng = x, lat = y\<rparr>)"

text \<open>
  \<^verbatim>\<open>LngLatLike\<close>: a \<^verbatim>\<open>LngLat\<close> instance, a pair \<^verbatim>\<open>[lng, lat]\<close>, an object \<^verbatim>\<open>{lng, lat}\<close>, an
  object \<^verbatim>\<open>{lon, lat}\<close>; \<open>OtherObject\<close> is an object of none of these shapes.
\<close>

datatype LngLatLike =
    LngLatInstance LngLat
  | LngLatArray real real
  | LngLatObject real real
  | LonLatObject real real
  | OtherObject

fun toLngLat :: "LngLatLike \<Rightarrow> thrown + LngLat" where
  "toLngLat (LngLatInstance p) = Inr p"
| "toLngLat (LngLatArray x y) = new_LngLat x y"
| "toLngLat (LngLatObject x y) = new_LngLat x y"
| "toLngLat (LonLatObject x y) = new_LngLat x y"
| "toLngLat OtherObject = Inl (Error ''Invalid LngLatLike object'')"

record BoundingBox =
  minLng :: real
  minLat :: real
  maxLng :: real
  maxLat :: real

definition earthRadius :: real where
  "earthRadius = 6371000"

text \<open>
  At the poles the cosine is 0: JavaScript divides to an infinite (or, after rounding, a
  huge) longitude delta, where division by 0 in HOL gives 0.  No statement below reads
  the numbers of the box.
\<close>

definition createBbox :: "LngLatLike \<Rightarrow> real \<Rightarrow> thrown + BoundingBox" where
  "createBbox center radiusMeters =
     (case toLngLat center of
        Inl e \<Rightarrow> Inl e
      | Inr point \<Rightarrow>
          let latDelta = (radiusMeters / earthRadius) * (180 / pi);
              lngDelta = (radiusMeters / (earthRadius * cos ((lat point * pi) / 180))) * (180 / pi)
          in Inr \<lparr>minLng = lng point - lngDelta, minLat = lat point - latDelta,
                  maxLng = lng point + lngDelta, maxLat = lat point + latDelta\<rparr>)"

text \<open>\<^verbatim>\<open>Math.atan2\<close> on the reals.\<close>

definition atan2 :: "real \<Rightarrow> real \<Rightarrow> real" where
  "atan2 y x =
     (if 0 < x then arctan (y / x)
      else if x < 0 then (if 0 \<le> y then arctan (y / x) + pi else arctan (y / x) - pi)
      else if 0 < y then pi / 2
      else if y < 0 then - (pi / 2)
      else 0)"

text \<open>The arithmetic of \<^verbatim>\<open>calculateDistance\<close>, on the two converted points.\<close>

definition haversine :: "LngLat \<Rightarrow> LngLat \<Rightarrow> real" where
  "haversine p1 p2 =
     (let R = 6371000;
          lat1 = (lat p1 * pi) / 180;
          lat2 = (lat p2 * pi) / 180;
          deltaLat = ((lat p2 - lat p1) * pi) / 180;
          deltaLng = ((lng p2 - lng p1) * pi) / 180;
          a = sin (deltaLat / 2) * sin (deltaLat / 2) +
              cos lat1 * cos lat2 * sin (deltaLng / 2) * sin (deltaLng / 2);
          c = 2 * atan2 (sqrt a) (sqrt (1 - a))
      in R * c)"

definition calculateDistance :: "LngLatLike \<Rightarrow> LngLatLike \<Rightarrow> thrown + real" where
  "calculateDistance from to =
     (case toLngLat from of
        Inl e \<Rightarrow> Inl e
      | Inr p1 \<Rightarrow>
         (case toLngLat to of
            Inl e \<Rightarrow> Inl e
          | Inr p2 \<Rightarrow> Inr (haversine p1 p2)))"

text \<open>
  \<^verbatim>\<open>findClosestPoint\<close> takes any objects with a \<^verbatim>\<open>location\<close> field: a record extending
  \<open>located\<close>.  The loop carries \<^verbatim>\<open>closest\<close> and \<^verbatim>\<open>minDistance\<close> over \<^verbatim>\<open>points[1..]\<close>.
\<close>

record located =
  location :: LngLat

fun closest_loop ::
  "LngLatLike \<Rightarrow> 'a located_scheme list \<Rightarrow> 'a located_scheme \<Rightarrow> real \<Rightarrow> thrown + 'a located_scheme"
where
  "closest_loop target [] closest minDistance = Inr closest"
| "closest_loop target (p # ps) closest minDistance =
     (case calculateDistance target (LngLatInstance (location p)) of
        Inl e \<Rightarrow> Inl e
      | Inr distance \<Rightarrow>
          if distance < minDistance then closest_loop target ps p distance
          else closest_loop target ps closest minDistance)"

definition findClosestPoint ::
  "LngLatLike \<Rightarrow> 'a located_scheme list \<Rightarrow> thrown + 'a located_scheme option"
where
  "findClosestPoint target points =
     (case points of
        [] \<Rightarrow> Inr None
      | p0 # rest \<Rightarrow>
         (case calculateDistance target (LngLatInstance (location p0)) of
            Inl e \<Rightarrow> Inl e
          | Inr minDistance \<Rightarrow>
             (case closest_loop target rest p0 minDistance of
                Inl e \<Rightarrow> Inl e
              | Inr closest \<Rightarrow> Inr (Some closest))))"

section \<open>The platform: URLs, number formatting, \<^verbatim>\<open>fetch\<close>\<close>

text \<open>
  A parsed \<^verbatim>\<open>URL\<close> object: everything before the query, the query string (if any), the
  \<^verbatim>\<open>searchParams\<close> list parsed from it, and the fragment (with its \<^verbatim>\<open>#\<close>, or empty).
  Strings are byte strings (UTF-8).
\<close>

record url =
  url_prefix :: string
  url_query :: "string option"
  url_params :: "(string \<times> string) list"
  url_fragment :: string

text \<open>
  The \<^verbatim>\<open>application/x-www-form-urlencoded\<close> serializer of the URL standard, which
  \<^verbatim>\<open>URLSearchParams\<close> uses: ASCII letters, digits and \<^verbatim>\<open>*-._\<close> stay, a space becomes
  \<^verbatim>\<open>+\<close>, every other byte becomes \<^verbatim>\<open>%XX\<close>.
\<close>

definition form_safe :: "char \<Rightarrow> bool" where
  "form_safe c =
     (c \<in> set ''ABCDEFGHIJKLMNOPQRSTUVWXYZabcdefghijklmnopqrstuvwxyz0123456789*-._'')"

definition hex_digit :: "nat \<Rightarrow> char" where
  "hex_digit n = ''0123456789ABCDEF'' ! (n mod 16)"

definition form_encode_byte :: "char \<Rightarrow> string" where
  "form_encode_byte c =
     (if form_safe c then [c]
      else if c = CHR '' '' then ''+''
      else [CHR ''%'', hex_digit (of_char c div 16), hex_digit (of_char c mod 16)])"

definition form_encode :: "string \<Rightarrow> string" where
  "form_encode s = concat (map form_encode_byte s)"

fun join_amp :: "string list \<Rightarrow> string" where
  "join_amp [] = []"
| "join_amp [x] = x"
| "join_amp (x # y # zs) = x @ ''&'' @ join_amp (y # zs)"

definition urlencoded_serialize :: "(string \<times> string) list \<Rightarrow> string" where
  "urlencoded_serialize ps =
     join_amp (map (\<lambda>(name, val). form_encode name @ ''='' @ form_encode val) ps)"

text \<open>
  \<^verbatim>\<open>URLSearchParams.set\<close>: the first tuple of that name takes the value and the others
  are removed; without such a tuple one is appended.
\<close>

fun searchParams_set :: "string \<Rightarrow> string \<Rightarrow> (string \<times> string) list \<Rightarrow> (string \<times> string) list" where
  "searchParams_set name val [] = [(name, val)]"
| "searchParams_set name val ((n, v) # ps) =
     (if n = name then (name, val) # filter (\<lambda>(n', _). n' \<noteq> name) ps
      else (n, v) # searchParams_set name val ps)"

definition url_searchParams_set :: "string \<Rightarrow> string \<Rightarrow> url \<Rightarrow> url" where
  "url_searchParams_set name val u =
     (let ps = searchParams_set name val (url_params u)
      in u\<lparr>url_params := ps, url_query := Some (urlencoded_serialize ps)\<rparr>)"

definition url_toString :: "url \<Rightarrow> string" where
  "url_toString u =
     url_prefix u @ (case url_query u of None \<Rightarrow> [] | Some q \<Rightarrow> ''?'' @ q) @ url_fragment u"

text \<open>The body and status of a \<^verbatim>\<open>Response\<close>; \<open>json\<close> is what \<^verbatim>\<open>response.json()\<close> settles with.\<close>

record 'j response =
  ok :: bool
  status :: nat
  json :: "thrown + 'j"

text \<open>
  What the code takes from its environment: the \<^verbatim>\<open>URL\<close> parser (\<open>None\<close> when the
  constructor throws), the conversion of a number to a string, and \<^verbatim>\<open>fetch\<close>, which
  reads and changes the state \<open>'w\<close> of the network and either rejects or resolves with a
  response.
\<close>

record ('w, 'j) platform =
  parse_url :: "string \<Rightarrow> url option"
  number_to_string :: "real \<Rightarrow> string"
  fetch :: "string \<Rightarrow> 'w \<Rightarrow> (thrown + 'j response) \<times> 'w"

definition bboxToString :: "('w, 'j) platform \<Rightarrow> BoundingBox \<Rightarrow> string" where
  "bboxToString P bbox =
     number_to_string P (minLng bbox) @ '','' @ number_to_string P (minLat bbox) @ '','' @
     number_to_string P (maxLng bbox) @ '','' @ number_to_string P (maxLat bbox)"

section \<open>API utilities (\<^verbatim>\<open>src/lib/utils/api.ts\<close>)\<close>

definition fetchJson :: "('w, 'j) platform \<Rightarrow> string \<Rightarrow> 'w \<Rightarrow> (thrown + 'j) \<times> 'w" where
  "fetchJson P u w =
     (case fetch P u w of
        (Inl e, w') \<Rightarrow> (Inl e, w')
      | (Inr resp, w') \<Rightarrow>
          if \<not> ok resp
          then (Inl (Error (''HTTP error! status: '' @ number_to_string P (real (status resp)))), w')
          else (json resp, w'))"

text \<open>The values a parameter record can hold at run time.\<close>

datatype js_value = JString string | JNumber real | JBoolean bool | JNull | JUndefined

fun js_String :: "('w, 'j) platform \<Rightarrow> js_value \<Rightarrow> string" where
  "js_String P (JString s) = s"
| "js_String P (JNumber n) = number_to_string P n"
| "js_String P (JBoolean b) = (if b then ''true'' else ''false'')"
| "js_String P JNull = ''null''"
| "js_String P JUndefined = ''undefined''"

text \<open>
  \<^verbatim>\<open>buildUrl\<close>; \<open>params\<close> is \<^verbatim>\<open>Object.entries(params)\<close>, the entries in the object's own
  order, each key once.
\<close>

definition param_kept :: "js_value \<Rightarrow> bool" where
  "param_kept v = (v \<noteq> JUndefined \<and> v \<noteq> JNull \<and> v \<noteq> JString [])"

definition buildUrl_params :: "('w, 'j) platform \<Rightarrow> (string \<times> js_value) list \<Rightarrow> url \<Rightarrow> url" where
  "buildUrl_params P params u =
     fold (\<lambda>(key, v) u'. if param_kept v then url_searchParams_set key (js_String P v) u' else u')
       params u"

definition buildUrl :: "('w, 'j) platform \<Rightarrow> string \<Rightarrow> (string \<times> js_value) list \<Rightarrow> thrown + string" where
  "buildUrl P baseUrl params =
     (case parse_url P baseUrl of
        None \<Rightarrow> Inl (Error ''Invalid URL'')
      | Some u \<Rightarrow> Inr (url_toString (buildUrl_params P params u)))"

section \<open>Types and constants (\<^verbatim>\<open>src/lib/core/types.ts\<close>, \<^verbatim>\<open>constants.ts\<close>)\<close>

datatype ProviderType = Google | Mapillary

text \<open>A \<^verbatim>\<open>Date\<close>, given by the constructor argument it was made from.\<close>

datatype date = DateOfString string | DateOfNumber real

record ImageryResult = located +
  imagery_id :: string
  capturedAt :: "date option"
  thumbnailUrl :: "string option"
  provider :: ProviderType
  heading :: "number option"
  isPano :: "bool option"

text \<open>\<^verbatim>\<open>GoogleStreetViewMetadata\<close>; its \<^verbatim>\<open>location\<close> is a plain object with \<^verbatim>\<open>lat\<close> and \<^verbatim>\<open>lng\<close>.\<close>

record GoogleStreetViewMetadata =
  meta_status :: string
  meta_copyright :: "string option"
  meta_date :: "string option"
  meta_location :: "LngLat option"
  pano_id :: "string option"

text \<open>\<^verbatim>\<open>MapillaryImage\<close>; \<open>computed_geometry\<close> holds the \<^verbatim>\<open>coordinates\<close> pair \<^verbatim>\<open>[lng, lat]\<close>.\<close>

record MapillaryImage =
  mapillary_id :: string
  computed_geometry :: "(real \<times> real) option"
  thumb_1024_url :: "string option"
  thumb_256_url :: "string option"
  captured_at :: "real option"
  compass_angle :: "number option"
  is_pano :: "bool option"

record MapillaryImageResponse =
  data :: "MapillaryImage list option"

definition GOOGLE_API_METADATA_URL :: string where
  "GOOGLE_API_METADATA_URL = ''https://maps.googleapis.com/maps/api/streetview/metadata''"


definition MAPILLARY_API_GRAPH_URL :: string where
  "MAPILLARY_API_GRAPH_URL = ''https://graph.mapillary.com''"

definition MAPILLARY_API_IMAGES_ENDPOINT :: string where
  "MAPILLARY_API_IMAGES_ENDPOINT = ''/images''"

definition MAPILLARY_IMAGE_FIELDS :: string where
  "MAPILLARY_IMAGE_FIELDS =
     ''id,computed_geometry,thumb_1024_url,thumb_256_url,captured_at,compass_angle,is_pano''"

section \<open>Providers (\<^verbatim>\<open>src/lib/providers\<close>)\<close>

text \<open>
  A provider method that awaits the network takes the state of the network and returns
  the new one beside its result.  \<^verbatim>\<open>console.error\<close> in the \<^verbatim>\<open>catch\<close> blocks is not part
  of the model.  An optional parameter is an \<open>option\<close>, \<open>None\<close> when the caller leaves it
  out, and \<open>with_default\<close> gives it its default value.
\<close>

definition with_default :: "'a \<Rightarrow> 'a option \<Rightarrow> 'a" where
  "with_default d x = (case x of None \<Rightarrow> d | Some v \<Rightarrow> v)"

definition isConfigured :: "string \<Rightarrow> bool" where
  "isConfigured credential = (credential \<noteq> [])"

subsection \<open>\<^verbatim>\<open>GoogleStreetViewProvider\<close>\<close>

text \<open>The \<^verbatim>\<open>try\<close> block of \<^verbatim>\<open>queryImagery\<close>: the request URL, the request, the answer.\<close>

definition google_metadata_url ::
  "('w, 'j) platform \<Rightarrow> string \<Rightarrow> LngLat \<Rightarrow> real \<Rightarrow> thrown + string"
where
  "google_metadata_url P apiKey point radius =
     buildUrl P GOOGLE_API_METADATA_URL
       [(''location'',
         JString (number_to_string P (lat point) @ '','' @ number_to_string P (lng point))),
        (''radius'', JNumber radius),
        (''key'', JString apiKey)]"

definition google_query_try ::
  "('w, GoogleStreetViewMetadata) platform \<Rightarrow> string \<Rightarrow> LngLat \<Rightarrow> real \<Rightarrow> 'w
     \<Rightarrow> (thrown + ImageryResult option) \<times> 'w"
where
  "google_query_try P apiKey point radius w =
     (case google_metadata_url P apiKey point radius of
        Inl e \<Rightarrow> (Inl e, w)
      | Inr u \<Rightarrow>
         (case fetchJson P u w of
            (Inl e, w') \<Rightarrow> (Inl e, w')
          | (Inr metadata, w') \<Rightarrow>
             (case (meta_location metadata, pano_id metadata) of
                (Some loc, Some pano) \<Rightarrow>
                  if meta_status metadata = ''OK'' \<and> pano \<noteq> []
                  then (case new_LngLat (lng loc) (lat loc) of
                          Inl e \<Rightarrow> (Inl e, w')
                        | Inr l \<Rightarrow>
                            (Inr (Some \<lparr>location = l, imagery_id = pano,
                                capturedAt =
                                  (case meta_date metadata of
                                     None \<Rightarrow> None
                                   | Some d \<Rightarrow> if d \<noteq> [] then Some (DateOfString d) else None),
                                thumbnailUrl = None, provider = Google, heading = None,
                                isPano = Some True\<rparr>), w'))
                  else (Inr None, w')
              | _ \<Rightarrow> (Inr None, w'))))"

definition google_queryImagery ::
  "('w, GoogleStreetViewMetadata) platform \<Rightarrow> string \<Rightarrow> LngLatLike \<Rightarrow> real option \<Rightarrow> 'w
     \<Rightarrow> (thrown + ImageryResult option) \<times> 'w"
where
  "google_queryImagery P apiKey lngLat radius_opt w =
     (let radius = with_default 50 radius_opt
      in if \<not> isConfigured apiKey then (Inr None, w)
         else (case toLngLat lngLat of
                 Inl e \<Rightarrow> (Inl e, w)
               | Inr point \<Rightarrow>
                  (case google_query_try P apiKey point radius w of
                     (Inl e, w') \<Rightarrow> (Inr None, w')
                   | (Inr r, w') \<Rightarrow> (Inr r, w'))))"

subsection \<open>\<^verbatim>\<open>MapillaryProvider\<close>\<close>

definition mapillaryToImagery :: "MapillaryImage \<Rightarrow> real \<times> real \<Rightarrow> thrown + ImageryResult" where
  "mapillaryToImagery img coordinates =
     (case new_LngLat (fst coordinates) (snd coordinates) of
        Inl e \<Rightarrow> Inl e
      | Inr l \<Rightarrow>
          Inr \<lparr>location = l, imagery_id = mapillary_id img,
               capturedAt =
                 (case captured_at img of
                    None \<Rightarrow> None
                  | Some t \<Rightarrow> if t \<noteq> 0 then Some (DateOfNumber t) else None),
               thumbnailUrl =
                 (case thumb_256_url img of
                    None \<Rightarrow> thumb_1024_url img
                  | Some s \<Rightarrow> if s \<noteq> [] then Some s else thumb_1024_url img),
               provider = Mapillary, heading = compass_angle img, isPano = is_pano img\<rparr>)"

text \<open>
  \<^verbatim>\<open>response.data.filter(...).map(...)\<close>: the images with a \<^verbatim>\<open>computed_geometry\<close>, each
  converted; a conversion that throws ends the whole expression.
\<close>

fun images_to_imagery :: "MapillaryImage list \<Rightarrow> thrown + ImageryResult list" where
  "images_to_imagery [] = Inr []"
| "images_to_imagery (img # imgs) =
     (case computed_geometry img of
        None \<Rightarrow> images_to_imagery imgs
      | Some coordinates \<Rightarrow>
         (case mapillaryToImagery img coordinates of
            Inl e \<Rightarrow> Inl e
          | Inr r \<Rightarrow>
             (case images_to_imagery imgs of
                Inl e \<Rightarrow> Inl e
              | Inr rs \<Rightarrow> Inr (r # rs))))"

definition mapillary_images_url ::
  "('w, 'j) platform \<Rightarrow> string \<Rightarrow> BoundingBox \<Rightarrow> thrown + string"
where
  "mapillary_images_url P accessToken bbox =
     buildUrl P (MAPILLARY_API_GRAPH_URL @ MAPILLARY_API_IMAGES_ENDPOINT)
       [(''access_token'', JString accessToken),
        (''bbox'', JString (bboxToString P bbox)),
        (''fields'', JString MAPILLARY_IMAGE_FIELDS),
        (''limit'', JNumber 100)]"

definition mapillary_query_try ::
  "('w, MapillaryImageResponse) platform \<Rightarrow> string \<Rightarrow> LngLat \<Rightarrow> BoundingBox \<Rightarrow> 'w
     \<Rightarrow> (thrown + ImageryResult option) \<times> 'w"
where
  "mapillary_query_try P accessToken point bbox w =
     (case mapillary_images_url P accessToken bbox of
        Inl e \<Rightarrow> (Inl e, w)
      | Inr u \<Rightarrow>
         (case fetchJson P u w of
            (Inl e, w') \<Rightarrow> (Inl e, w')
          | (Inr response, w') \<Rightarrow>
             (case data response of
                None \<Rightarrow> (Inr None, w')
              | Some [] \<Rightarrow> (Inr None, w')
              | Some (img # imgs) \<Rightarrow>
                 (case images_to_imagery (img # imgs) of
                    Inl e \<Rightarrow> (Inl e, w')
                  | Inr imageryResults \<Rightarrow>
                      (findClosestPoint (LngLatInstance point) imageryResults, w')))))"

definition mapillary_queryImagery ::
  "('w, MapillaryImageResponse) platform \<Rightarrow> string \<Rightarrow> LngLatLike \<Rightarrow> real option \<Rightarrow> 'w
     \<Rightarrow> (thrown + ImageryResult option) \<times> 'w"
where
  "mapillary_queryImagery P accessToken lngLat radius_opt w =
     (let radius = with_default 50 radius_opt
      in if \<not> isConfigured accessToken then (Inr None, w)
         else (case toLngLat lngLat of
                 Inl e \<Rightarrow> (Inl e, w)
               | Inr point \<Rightarrow>
                  (case createBbox (LngLatInstance point) radius of
                     Inl e \<Rightarrow> (Inl e, w)
                   | Inr bbox \<Rightarrow>
                      (case mapillary_query_try P accessToken point bbox w of
                         (Inl e, w') \<Rightarrow> (Inr None, w')
                       | (Inr r, w') \<Rightarrow> (Inr r, w')))))"

subsection \<open>\<^verbatim>\<open>findNearestImagery\<close>\<close>










section \<open>The control (\<^verbatim>\<open>src/lib/core/StreetViewControl.ts\<close>)\<close>

datatype StreetViewEvent =
    Collapse | Expand | StateChange | ProviderChange | LocationChange | HeadingChange
  | ErrorEvent | Load

record StreetViewState =
  collapsed :: bool
  activeProvider :: ProviderType
  st_location :: "LngLat option"
  imagery :: "ImageryResult option"
  st_heading :: number
  pitch :: number
  loading :: bool
  st_error :: "string option"

text \<open>The options the control's logic reads; titles, sizes and colours are left out.\<close>

record StreetViewControlOptions =
  opt_collapsed :: bool
  defaultProvider :: ProviderType
  googleApiKey :: string
  mapillaryAccessToken :: string
  maxSearchRadius :: number
  clickToView :: bool
  showMarker :: bool

subsection \<open>The components, as far as the control drives them\<close>

text \<open>
  The DOM is reduced to what the control's calls change: the panel's \<^verbatim>\<open>expanded\<close> class,
  the container's \<^verbatim>\<open>active\<close> class, the tab strip, the children of the viewer element
  (loading element, initial prompt, provider content, no-data element), the text state
  of the \<^verbatim>\<open>NoDataMessage\<close> and the marker.  The components exist between \<^verbatim>\<open>onAdd\<close> and
  \<^verbatim>\<open>onRemove\<close>; outside, \<open>ui\<close> is \<open>None\<close> and every \<^verbatim>\<open>?.\<close> call does nothing.
\<close>

datatype nodata_view = NoCoverage | Searching | NotFound | ShowingError string

record marker_state =
  marker_lngLat :: "LngLat option"
  marker_on_map :: bool
  marker_heading :: number

record ui_state =
  panel_expanded :: bool
  panel_positioned :: bool
  container_active :: bool
  tabs_available :: "ProviderType list"
  tabs_activeProvider :: ProviderType
  tabs_highlighted :: bool
  viewer_loading :: "string option"
  viewer_initial :: bool
  viewer_display :: "(ProviderType \<times> ImageryResult) option"
  viewer_nodata :: bool
  noDataMessage :: "(ProviderType \<times> nodata_view) option"
  marker :: "marker_state option"
  map_click_bound :: bool

text \<open>
  A call of a provider that the control awaits, and the continuation that waits for
  it.  \<open>AwaitQueryImagery\<close> and \<open>AwaitFindNearest\<close> are the two \<^verbatim>\<open>await\<close>s of
  \<^verbatim>\<open>showStreetView\<close>, \<open>AwaitSearchNearest\<close> the one of \<^verbatim>\<open>searchNearest\<close>.
\<close>

datatype request =
    QueryImagery ProviderType LngLat
  | FindNearestImagery ProviderType LngLat number

datatype pending =
    AwaitQueryImagery ProviderType LngLat
  | AwaitFindNearest ProviderType LngLat
  | AwaitSearchNearest ProviderType

datatype 'a outcome = Resolved 'a | Rejected thrown

text \<open>
  The control: its state record, what the constructor keeps of the options, the
  components, and the traces of its effects: \<open>emitted\<close> lists the calls of \<^verbatim>\<open>emit\<close> (event,
  copy of the state, error), which is what a subscriber of every event receives;
  \<open>requests\<close> the provider calls; \<open>inflight\<close> the continuations not yet resumed; \<open>rejected\<close>
  the rejections of its own promises.  Subscribers are taken not to call back into the
  control and not to throw.
\<close>

record control =
  state :: StreetViewState
  ctl_maxSearchRadius :: number
  ctl_clickToView :: bool
  ctl_showMarker :: bool
  googleProvider :: bool
  mapillaryProvider :: bool
  ui :: "ui_state option"
  emitted :: "(StreetViewEvent \<times> StreetViewState \<times> thrown option) list"
  requests :: "request list"
  inflight :: "pending list"
  rejected :: "thrown list"

definition new_control :: "StreetViewControlOptions \<Rightarrow> control" where
  "new_control options =
     \<lparr>state = \<lparr>collapsed = opt_collapsed options, activeProvider = defaultProvider options,
                st_location = None, imagery = None, st_heading = Fin 0, pitch = Fin 0,
                loading = False, st_error = None\<rparr>,
      ctl_maxSearchRadius = maxSearchRadius options,
      ctl_clickToView = clickToView options,
      ctl_showMarker = showMarker options,
      googleProvider = (googleApiKey options \<noteq> []),
      mapillaryProvider = (mapillaryAccessToken options \<noteq> []),
      ui = None, emitted = [], requests = [], inflight = [], rejected = []\<rparr>"

definition emit :: "StreetViewEvent \<Rightarrow> thrown option \<Rightarrow> control \<Rightarrow> control" where
  "emit event err c = c\<lparr>emitted := emitted c @ [(event, state c, err)]\<rparr>"

definition with_ui :: "(ui_state \<Rightarrow> ui_state) \<Rightarrow> control \<Rightarrow> control" where
  "with_ui f c = c\<lparr>ui := map_option f (ui c)\<rparr>"

subsubsection \<open>\<^verbatim>\<open>Viewer\<close>\<close>

definition viewer_clearContent :: "ui_state \<Rightarrow> ui_state" where
  "viewer_clearContent u =
     u\<lparr>viewer_loading := None, viewer_initial := False, viewer_display := None,
       viewer_nodata := False\<rparr>"

definition viewer_showInitialState :: "ui_state \<Rightarrow> ui_state" where
  "viewer_showInitialState u = (viewer_clearContent u)\<lparr>viewer_initial := True\<rparr>"

definition viewer_showLoading :: "string \<Rightarrow> ui_state \<Rightarrow> ui_state" where
  "viewer_showLoading message u = u\<lparr>viewer_loading := Some message\<rparr>"

definition viewer_displayImagery :: "ProviderType \<Rightarrow> ImageryResult \<Rightarrow> ui_state \<Rightarrow> ui_state" where
  "viewer_displayImagery p img u = (viewer_clearContent u)\<lparr>viewer_display := Some (p, img)\<rparr>"

subsubsection \<open>\<^verbatim>\<open>ProviderTabs\<close>, \<^verbatim>\<open>StreetViewMarker\<close>, \<^verbatim>\<open>NoDataMessage\<close>\<close>

definition tabs_setActive :: "ProviderType \<Rightarrow> ui_state \<Rightarrow> ui_state" where
  "tabs_setActive p u =
     (if tabs_activeProvider u = p then u
      else if p \<in> set (tabs_available u)
           then u\<lparr>tabs_activeProvider := p, tabs_highlighted := True\<rparr>
           else u\<lparr>tabs_highlighted := False\<rparr>)"

definition with_marker :: "(marker_state \<Rightarrow> marker_state) \<Rightarrow> ui_state \<Rightarrow> ui_state" where
  "with_marker f u = u\<lparr>marker := map_option f (marker u)\<rparr>"

definition marker_setLngLat :: "LngLat \<Rightarrow> marker_state \<Rightarrow> marker_state" where
  "marker_setLngLat l m = m\<lparr>marker_lngLat := Some l\<rparr>"

definition marker_addTo :: "LngLat \<Rightarrow> marker_state \<Rightarrow> marker_state" where
  "marker_addTo l m = m\<lparr>marker_lngLat := Some l, marker_on_map := True\<rparr>"

definition marker_remove :: "marker_state \<Rightarrow> marker_state" where
  "marker_remove m = m\<lparr>marker_on_map := False\<rparr>"

definition marker_setHeading :: "number \<Rightarrow> marker_state \<Rightarrow> marker_state" where
  "marker_setHeading h m = m\<lparr>marker_heading := normalizeHeading h\<rparr>"

definition marker_show_imagery :: "ImageryResult \<Rightarrow> marker_state \<Rightarrow> marker_state" where
  "marker_show_imagery img m =
     (let m' = marker_setLngLat (location img) m
      in case heading img of None \<Rightarrow> m' | Some h \<Rightarrow> marker_setHeading h m')"

definition noData_set :: "nodata_view \<Rightarrow> ui_state \<Rightarrow> ui_state" where
  "noData_set v u = u\<lparr>noDataMessage := map_option (\<lambda>(p, _). (p, v)) (noDataMessage u)\<rparr>"

definition noData_destroy :: "ui_state \<Rightarrow> ui_state" where
  "noData_destroy u =
     (case noDataMessage u of
        None \<Rightarrow> u
      | Some _ \<Rightarrow> u\<lparr>viewer_nodata := False, noDataMessage := None\<rparr>)"

subsection \<open>The control's methods\<close>

definition getAvailableProviders :: "control \<Rightarrow> ProviderType list" where
  "getAvailableProviders c =
     (if googleProvider c then [Google] else []) @ (if mapillaryProvider c then [Mapillary] else [])"

definition getCurrentProvider :: "control \<Rightarrow> ProviderType option" where
  "getCurrentProvider c =
     (if activeProvider (state c) = Google
      then (if googleProvider c then Some Google else None)
      else (if mapillaryProvider c then Some Mapillary else None))"

definition updatePanelPosition :: "control \<Rightarrow> control" where
  "updatePanelPosition c = with_ui (\<lambda>u. u\<lparr>panel_positioned := True\<rparr>) c"

definition showNoData :: "string option \<Rightarrow> control \<Rightarrow> control" where
  "showNoData errorMessage c =
     with_ui (\<lambda>u. (viewer_clearContent u)
                \<lparr>noDataMessage :=
                   Some (activeProvider (state c),
                         (case errorMessage of
                            None \<Rightarrow> NoCoverage
                          | Some m \<Rightarrow> if m \<noteq> [] then ShowingError m else NoCoverage)),
                 viewer_nodata := True\<rparr>) c"

text \<open>
  \<^verbatim>\<open>showStreetView\<close> up to its first \<^verbatim>\<open>await\<close>: the call of \<^verbatim>\<open>queryImagery\<close> is issued and
  the rest of the function waits in \<open>inflight\<close>.
\<close>

definition showStreetView :: "LngLatLike \<Rightarrow> control \<Rightarrow> control" where
  "showStreetView lngLat c =
     (case toLngLat lngLat of
        Inl e \<Rightarrow> c\<lparr>rejected := rejected c @ [e]\<rparr>
      | Inr loc \<Rightarrow>
         (case getCurrentProvider c of
            None \<Rightarrow> showNoData (Some ''No street view provider is configured.'') c
          | Some p \<Rightarrow>
              let c1 = c\<lparr>state := (state c)\<lparr>st_location := Some loc, loading := True,
                                              st_error := None\<rparr>\<rparr>;
                  c2 = emit LocationChange None c1;
                  c3 = with_ui (viewer_showLoading ''Loading street view...'') c2;
                  c4 = with_ui (with_marker (marker_addTo loc \<circ> marker_setLngLat loc)) c3
              in c4\<lparr>requests := requests c4 @ [QueryImagery p loc],
                    inflight := inflight c4 @ [AwaitQueryImagery p loc]\<rparr>))"

text \<open>The three ways a lookup settles; each ends with the \<^verbatim>\<open>emit('statechange')\<close> after the \<^verbatim>\<open>try\<close>.\<close>

definition lookup_found :: "ProviderType \<Rightarrow> ImageryResult \<Rightarrow> control \<Rightarrow> control" where
  "lookup_found p img c =
     (let c1 = c\<lparr>state := (state c)\<lparr>imagery := Some img, loading := False\<rparr>\<rparr>;
          c2 = with_ui (with_marker (marker_show_imagery img)) c1;
          c3 = with_ui (viewer_displayImagery p img) c2;
          c4 = emit Load None c3
      in emit StateChange None c4)"

definition lookup_missed :: "control \<Rightarrow> control" where
  "lookup_missed c =
     (let c1 = c\<lparr>state := (state c)\<lparr>loading := False\<rparr>\<rparr>;
          c2 = showNoData None c1
      in emit StateChange None c2)"

definition error_message :: "thrown \<Rightarrow> string \<Rightarrow> string" where
  "error_message e fallback = (case e of Error m \<Rightarrow> m | NonError _ \<Rightarrow> fallback)"

definition as_Error :: "thrown \<Rightarrow> thrown" where
  "as_Error e = (case e of Error m \<Rightarrow> Error m | NonError s \<Rightarrow> Error s)"

definition lookup_failed :: "thrown \<Rightarrow> control \<Rightarrow> control" where
  "lookup_failed e c =
     (let c1 = c\<lparr>state := (state c)\<lparr>loading := False\<rparr>\<rparr>;
          c2 = c1\<lparr>state := (state c1)\<lparr>st_error := Some (error_message e ''Unknown error'')\<rparr>\<rparr>;
          c3 = showNoData (st_error (state c2)) c2;
          c4 = emit ErrorEvent (Some (as_Error e)) c3
      in emit StateChange None c4)"

text \<open>\<^verbatim>\<open>searchNearest\<close> up to its \<^verbatim>\<open>await\<close>, and the three ways it goes on.\<close>

definition searchNearest :: "control \<Rightarrow> control" where
  "searchNearest c =
     (case st_location (state c) of
        None \<Rightarrow> c
      | Some loc \<Rightarrow>
         (case getCurrentProvider c of
            None \<Rightarrow> c
          | Some p \<Rightarrow>
              let c1 = with_ui (noData_set Searching) c
              in c1\<lparr>requests := requests c1 @ [FindNearestImagery p loc (Fin 500)],
                    inflight := inflight c1 @ [AwaitSearchNearest p]\<rparr>))"

definition search_found :: "ProviderType \<Rightarrow> ImageryResult \<Rightarrow> control \<Rightarrow> control" where
  "search_found p img c =
     (let c1 = c\<lparr>state := (state c)\<lparr>imagery := Some img\<rparr>\<rparr>;
          c2 = with_ui (with_marker (marker_show_imagery img)) c1;
          c3 = with_ui noData_destroy c2;
          c4 = with_ui (viewer_displayImagery p img) c3;
          c5 = emit Load None c4
      in emit StateChange None c5)"

definition search_missed :: "control \<Rightarrow> control" where
  "search_missed c = emit StateChange None (with_ui (noData_set NotFound) c)"

definition search_failed :: "thrown \<Rightarrow> control \<Rightarrow> control" where
  "search_failed e c =
     emit StateChange None
       (with_ui (noData_set (ShowingError (error_message e ''Search failed''))) c)"

text \<open>
  The provider's promise settles and the continuation at position \<open>i\<close> of \<open>inflight\<close>
  runs on.  After a \<^verbatim>\<open>queryImagery\<close> that resolved with \<^verbatim>\<open>null\<close> the lookup goes on waiting,
  now for \<^verbatim>\<open>findNearestImagery\<close>.
\<close>

definition remove_nth :: "nat \<Rightarrow> 'a list \<Rightarrow> 'a list" where
  "remove_nth i xs = take i xs @ drop (Suc i) xs"

definition settled :: "nat \<Rightarrow> control \<Rightarrow> control" where
  "settled i c = c\<lparr>inflight := remove_nth i (inflight c)\<rparr>"

definition resume :: "nat \<Rightarrow> ImageryResult option outcome \<Rightarrow> control \<Rightarrow> control" where
  "resume i out c =
     (if length (inflight c) \<le> i then c
      else (case inflight c ! i of
              AwaitQueryImagery p loc \<Rightarrow>
               (case out of
                  Resolved (Some img) \<Rightarrow> lookup_found p img (settled i c)
                | Resolved None \<Rightarrow>
                    let c1 = with_ui (viewer_showLoading ''Searching nearby...'') c
                    in c1\<lparr>requests := requests c1 @ [FindNearestImagery p loc (ctl_maxSearchRadius c1)],
                          inflight := (inflight c1)[i := AwaitFindNearest p loc]\<rparr>
                | Rejected e \<Rightarrow> lookup_failed e (settled i c))
            | AwaitFindNearest p loc \<Rightarrow>
               (case out of
                  Resolved (Some img) \<Rightarrow> lookup_found p img (settled i c)
                | Resolved None \<Rightarrow> lookup_missed (settled i c)
                | Rejected e \<Rightarrow> lookup_failed e (settled i c))
            | AwaitSearchNearest p \<Rightarrow>
               (case out of
                  Resolved (Some img) \<Rightarrow> search_found p img (settled i c)
                | Resolved None \<Rightarrow> search_missed (settled i c)
                | Rejected e \<Rightarrow> search_failed e (settled i c))))"

definition clearStreetView :: "control \<Rightarrow> control" where
  "clearStreetView c =
     (let c1 = c\<lparr>state := (state c)\<lparr>st_location := None, imagery := None, st_heading := Fin 0,
                                      st_error := None\<rparr>\<rparr>;
          c2 = with_ui viewer_showInitialState c1;
          c3 = with_ui (with_marker marker_remove) c2;
          c4 = with_ui noData_destroy c3
      in emit StateChange None c4)"

definition setProvider :: "ProviderType \<Rightarrow> control \<Rightarrow> control" where
  "setProvider p c =
     (if activeProvider (state c) = p then c
      else let c1 = c\<lparr>state := (state c)\<lparr>activeProvider := p\<rparr>\<rparr>;
               c2 = with_ui (tabs_setActive p) c1;
               c3 = (case st_location (state c2) of
                       Some loc \<Rightarrow> showStreetView (LngLatInstance loc) c2
                     | None \<Rightarrow> with_ui viewer_showInitialState c2);
               c4 = emit ProviderChange None c3
           in emit StateChange None c4)"

definition expand :: "control \<Rightarrow> control" where
  "expand c =
     (if \<not> collapsed (state c) then c
      else let c1 = c\<lparr>state := (state c)\<lparr>collapsed := False\<rparr>\<rparr>;
               c2 = with_ui (\<lambda>u. u\<lparr>panel_expanded := True, container_active := True\<rparr>) c1;
               c3 = updatePanelPosition c2;
               c4 = emit Expand None c3
           in emit StateChange None c4)"

definition collapse :: "control \<Rightarrow> control" where
  "collapse c =
     (if collapsed (state c) then c
      else let c1 = c\<lparr>state := (state c)\<lparr>collapsed := True\<rparr>\<rparr>;
               c2 = with_ui (\<lambda>u. u\<lparr>panel_expanded := False, container_active := False\<rparr>) c1;
               c3 = emit Collapse None c2
           in emit StateChange None c3)"

definition toggle :: "control \<Rightarrow> control" where
  "toggle c = (if collapsed (state c) then expand c else collapse c)"

definition handleMapClick :: "LngLat \<Rightarrow> control \<Rightarrow> control" where
  "handleMapClick lngLat c =
     (if collapsed (state c) then c else showStreetView (LngLatInstance lngLat) c)"

definition handleHeadingChange :: "number \<Rightarrow> control \<Rightarrow> control" where
  "handleHeadingChange h c =
     (let c1 = c\<lparr>state := (state c)\<lparr>st_heading := h\<rparr>\<rparr>;
          c2 = with_ui (with_marker (marker_setHeading h)) c1
      in emit HeadingChange None c2)"

definition onAdd :: "control \<Rightarrow> control" where
  "onAdd c =
     (let c1 = c\<lparr>ui := Some \<lparr>panel_expanded = False, panel_positioned = False,
                             container_active = False,
                             tabs_available = getAvailableProviders c,
                             tabs_activeProvider = activeProvider (state c),
                             tabs_highlighted = True,
                             viewer_loading = None, viewer_initial = True,
                             viewer_display = None, viewer_nodata = False,
                             noDataMessage = None, marker = None,
                             map_click_bound = False\<rparr>\<rparr>;
          c2 = (if \<not> collapsed (state c1) then expand c1 else c1);
          c3 = (if ctl_clickToView c2 then with_ui (\<lambda>u. u\<lparr>map_click_bound := True\<rparr>) c2 else c2)
      in if ctl_showMarker c3
         then with_ui (\<lambda>u. u\<lparr>marker := Some \<lparr>marker_lngLat = None, marker_on_map = False,
                                              marker_heading = Fin 0\<rparr>\<rparr>) c3
         else c3)"



text \<open>A lookup of \<^verbatim>\<open>showStreetView\<close> that has not settled.\<close>

fun is_lookup :: "pending \<Rightarrow> bool" where
  "is_lookup (AwaitQueryImagery p loc) = True"
| "is_lookup (AwaitFindNearest p loc) = True"
| "is_lookup (AwaitSearchNearest p) = False"

definition lookups_in_flight :: "control \<Rightarrow> pending list" where
  "lookups_in_flight c = filter is_lookup (inflight c)"

section \<open>Notions the statements use\<close>


text \<open>The request fails: \<^verbatim>\<open>fetch\<close> rejects, or the status is not OK, or the body does not parse.\<close>

definition request_failed :: "('w, 'j) platform \<Rightarrow> string \<Rightarrow> 'w \<Rightarrow> bool" where
  "request_failed P u w =
     (case fst (fetch P u w) of Inl e \<Rightarrow> True | Inr resp \<Rightarrow> \<not> ok resp \<or> isl (json resp))"


text \<open>
  The control holds an instance of the provider; an outcome with which a waiting
  \<^verbatim>\<open>showStreetView\<close> settles (imagery found, none found after the nearest-search, or a
  rejection).
\<close>

definition provider_instance :: "ProviderType \<Rightarrow> control \<Rightarrow> bool" where
  "provider_instance p c = (case p of Google \<Rightarrow> googleProvider c | Mapillary \<Rightarrow> mapillaryProvider c)"

fun settles :: "pending \<Rightarrow> ImageryResult option outcome \<Rightarrow> bool" where
  "settles (AwaitQueryImagery p loc) (Resolved None) = False"
| "settles (AwaitQueryImagery p loc) out = True"
| "settles (AwaitFindNearest p loc) out = True"
| "settles (AwaitSearchNearest p) out = False"

section \<open>Test doubles\<close>

text \<open>
  Platforms to run the code on.  Their URL parser takes its argument as an absolute URL
  without query and fragment, numbers print as the decimal digits of their integer part,
  and the network state counts the requests.  On \<open>offline_platform\<close> every request
  fails; \<open>answering_platform\<close> answers every request with status 200 and the given body.
\<close>

fun show_nat :: "nat \<Rightarrow> string" where
  "show_nat n =
     (if n < 10 then [''0123456789'' ! n]
      else show_nat (n div 10) @ [''0123456789'' ! (n mod 10)])"

definition plain_url :: "string \<Rightarrow> url option" where
  "plain_url s = Some \<lparr>url_prefix = s, url_query = None, url_params = [], url_fragment = []\<rparr>"

definition offline_platform :: "(nat, 'j) platform" where
  "offline_platform =
     \<lparr>parse_url = plain_url,
      number_to_string = (\<lambda>x. show_nat (nat \<lfloor>x\<rfloor>)),
      fetch = (\<lambda>u w. (Inl (Error ''Failed to fetch''), Suc w))\<rparr>"

definition answering_platform :: "'j \<Rightarrow> (nat, 'j) platform" where
  "answering_platform body =
     \<lparr>parse_url = plain_url,
      number_to_string = (\<lambda>x. show_nat (nat \<lfloor>x\<rfloor>)),
      fetch = (\<lambda>u w. (Inr \<lparr>ok = True, status = 200, json = Inr body\<rparr>, Suc w))\<rparr>"

definition test_options :: StreetViewControlOptions where
  "test_options =
     \<lparr>opt_collapsed = True, defaultProvider = Google, googleApiKey = ''test-api-key'',
      mapillaryAccessToken = ''test-token'', maxSearchRadius = Fin 100, clickToView = True,
      showMarker = True\<rparr>"

definition san_francisco :: LngLat where
  "san_francisco = \<lparr>lng = - 122, lat = 37\<rparr>"


declare show_nat.simps [simp del]

section \<open>Heading normalization\<close>

text \<open>
  The input \<open>- 2\<^sup>-\<^sup>7\<^sup>0\<close> is a binary64 value.  Its remainder by 360 is itself, and adding 360
  gives a real strictly between the binary64 neighbours \<open>360 - 2\<^sup>-\<^sup>4\<^sup>4\<close> and \<open>360\<close>, nearer to
  360.
\<close>

lemma floor_log_tiny: "\<lfloor>log 2 \<bar>- (1 / 2 ^ 70) + 360 :: real\<bar>\<rfloor> = 8"
proof -
  have "\<lfloor>log 2 (- (1 / 2 ^ 70) + 360 :: real)\<rfloor> = 8"
    by (subst floor_log_eq_powr_iff) simp_all
  moreover have "\<bar>- (1 / 2 ^ 70) + 360 :: real\<bar> = - (1 / 2 ^ 70) + 360"
    by simp
  ultimately show ?thesis by simp
qed

lemma quantum_44: "(2::real) powi (max 8 (- 1022) - 52) = 1 / 2 ^ 44"
  by (simp add: power_int_minus field_simps)

lemma floor_scaled: "\<lfloor>(- (1 / 2 ^ 70) + 360) / (1 / 2 ^ 44) :: real\<rfloor> = 360 * 2 ^ 44 - 1"
  by (rule floor_unique) simp_all

lemma rhe_scaled: "round_half_even ((- (1 / 2 ^ 70) + 360) / (1 / 2 ^ 44)) = 360 * 2 ^ 44"
  unfolding round_half_even_def Let_def floor_scaled by simp

lemma round_double_below_360: "round_double (- (1 / 2 ^ 70) + 360) = Fin 360"
proof -
  have nz: "(- (1 / 2 ^ 70) + 360 :: real) \<noteq> 0" by simp
  show ?thesis
    unfolding round_double_def Let_def floor_log_tiny quantum_44 rhe_scaled
    using nz by simp
qed

lemma tiny_rem: "js_rem (Fin (- (1 / 2 ^ 70))) (Fin 360) = Fin (- (1 / 2 ^ 70))"
proof -
  have "trunc (- (1 / 2 ^ 70) / 360) = 0"
    unfolding trunc_def by (simp add: ceiling_eq_iff)
  then show ?thesis by simp
qed

text \<open>
  Claim C5: for every input number \<^verbatim>\<open>normalizeHeading\<close> returns a value in \<open>[0, 360)\<close>, with
  360 to 0, -90 to 270 and 450 to 90.  The three examples hold (\<open>normalizeHeading_examples\<close>
  below), and so does the range for every heading that is not negative
  (\<open>normalizeHeading_nonnegative\<close>); for the negative heading \<open>- 2\<^sup>-\<^sup>7\<^sup>0\<close> the code returns
  360 itself, since the sum \<^verbatim>\<open>normalized + 360\<close> rounds up to 360.
\<close>

theorem normalizeHeading_tiny_negative:
  "normalizeHeading (Fin (- (1 / 2 ^ 70))) = Fin 360"
proof -
  have lt: "js_lt (Fin (- (1 / 2 ^ 70))) (Fin 0)"
    by simp
  have add: "js_add (Fin (- (1 / 2 ^ 70))) (Fin 360) = Fin 360"
    unfolding js_add.simps by (rule round_double_below_360)
  have "normalizeHeading (Fin (- (1 / 2 ^ 70))) = (if js_truthy (Fin 360) then Fin 360 else Fin 0)"
    unfolding normalizeHeading_def Let_def tiny_rem add using lt by (simp only: if_True)
  then show ?thesis by simp
qed

lemma floor_log_pow: "\<lfloor>log 2 \<bar>- (1 / 2 ^ 70) :: real\<bar>\<rfloor> = - 70"
proof -
  have "\<lfloor>log 2 (1 / 2 ^ 70 :: real)\<rfloor> = - 70"
    by (subst floor_log_eq_powr_iff) (simp_all add: powr_minus_divide)
  moreover have "\<bar>- (1 / 2 ^ 70) :: real\<bar> = 1 / 2 ^ 70"
    by simp
  ultimately show ?thesis by simp
qed

lemma is_double_tiny: "is_double (- (1 / 2 ^ 70))"
proof -
  have q: "(2::real) powi (max (- 70) (- 1022) - 52) = 1 / 2 ^ 122"
    by (simp add: power_int_minus field_simps)
  have r: "round_half_even (- (1 / 2 ^ 70) / (1 / 2 ^ 122)) = - (2 ^ 52)"
    unfolding round_half_even_def Let_def by simp
  show ?thesis
    unfolding is_double_def round_double_def Let_def floor_log_pow q r
    by simp
qed

lemma round_double_270: "round_double 270 = Fin 270"
proof -
  have e: "\<lfloor>log 2 \<bar>270 :: real\<bar>\<rfloor> = 8"
  proof -
    have "\<lfloor>log 2 (270 :: real)\<rfloor> = 8"
      by (subst floor_log_eq_powr_iff) simp_all
    then show ?thesis by simp
  qed
  have r: "round_half_even (270 / (1 / 2 ^ 44)) = 270 * 2 ^ 44"
  proof -
    have "(270 / (1 / 2 ^ 44) :: real) = of_int (270 * 2 ^ 44)" by simp
    then have "\<lfloor>270 / (1 / 2 ^ 44) :: real\<rfloor> = 270 * 2 ^ 44"
      by (simp only: floor_of_int)
    then show ?thesis
      unfolding round_half_even_def Let_def by simp
  qed
  show ?thesis
    unfolding round_double_def Let_def e quantum_44 r by simp
qed

lemma normalizeHeading_examples:
  "normalizeHeading (Fin 360) = Fin 0"
  "normalizeHeading (Fin (- 90)) = Fin 270"
  "normalizeHeading (Fin 450) = Fin 90"
  "normalizeHeading (Fin (- 360)) = Fin 0"
  "normalizeHeading NaN = Fin 0"
  "normalizeHeading PosInf = Fin 0"
proof -
  have t: "trunc (- 90 / 360) = 0"
    unfolding trunc_def by (simp add: ceiling_eq_iff)
  have "js_rem (Fin (- 90)) (Fin 360) = Fin (- 90)"
    using t by simp
  then show "normalizeHeading (Fin (- 90)) = Fin 270"
    unfolding normalizeHeading_def Let_def by (simp add: round_double_270)
qed (simp_all add: normalizeHeading_def Let_def trunc_def)

text \<open>
  Without the addition the result is exact: every heading that is not negative, and every
  value that is not finite, is normalized into \<open>[0, 360)\<close>.
\<close>

lemma normalizeHeading_nonnegative:
  assumes "0 \<le> x"
  shows "\<exists>r. normalizeHeading (Fin x) = Fin r \<and> 0 \<le> r \<and> r < 360"
proof -
  define r where "r = x - 360 * of_int \<lfloor>x / 360\<rfloor>"
  have t: "trunc (x / 360) = \<lfloor>x / 360\<rfloor>"
    using assms by (simp add: trunc_def)
  have lo: "of_int \<lfloor>x / 360\<rfloor> \<le> x / 360" by (rule of_int_floor_le)
  have hi: "x / 360 < of_int \<lfloor>x / 360\<rfloor> + 1" by linarith
  from lo have r0: "0 \<le> r" unfolding r_def by (simp add: field_simps)
  from hi have r1: "r < 360" unfolding r_def by (simp add: field_simps)
  have rem: "js_rem (Fin x) (Fin 360) = Fin r"
  proof (cases "x = 0")
    case True
    then show ?thesis by (simp add: r_def)
  next
    case False
    with assms have "\<not> x < 0" by simp
    with False show ?thesis by (simp add: t r_def Let_def)
  qed
  have "normalizeHeading (Fin x) = Fin r"
    unfolding normalizeHeading_def Let_def rem using r0 by auto
  with r0 r1 show ?thesis by blast
qed

lemma normalizeHeading_not_finite:
  "normalizeHeading NaN = Fin 0" "normalizeHeading PosInf = Fin 0"
  "normalizeHeading NegInf = Fin 0" "normalizeHeading NegZero = Fin 0"
  by (simp_all add: normalizeHeading_def Let_def)

section \<open>Closest point\<close>







section \<open>Progressive search\<close>










section \<open>URL building\<close>
















section \<open>Point queries and failures\<close>

lemma google_query_caught:
  "fst (google_queryImagery P apiKey lngLat radius_opt w) = Inl e \<Longrightarrow> toLngLat lngLat = Inl e"
  by (auto simp: google_queryImagery_def Let_def split: if_splits sum.splits prod.splits)

lemma mapillary_query_caught:
  "fst (mapillary_queryImagery P accessToken lngLat radius_opt w) = Inl e \<Longrightarrow> toLngLat lngLat = Inl e"
  by (auto simp: mapillary_queryImagery_def createBbox_def Let_def
           split: if_splits sum.splits prod.splits)

lemma fetchJson_failed:
  "(case fst (fetch P u w) of Inl _ \<Rightarrow> True | Inr resp \<Rightarrow> \<not> ok resp \<or> isl (json resp)) \<Longrightarrow>
   isl (fst (fetchJson P u w))"
  by (auto simp: fetchJson_def split: sum.splits prod.splits)

lemma google_try_failed:
  assumes "google_metadata_url P apiKey point radius = Inr u"
    and "isl (fst (fetchJson P u w))"
  shows "isl (fst (google_query_try P apiKey point radius w))"
  using assms
  by (cases "fetchJson P u w") (auto simp: google_query_try_def isl_def)

lemma mapillary_try_failed:
  assumes "mapillary_images_url P accessToken bbox = Inr u"
    and "isl (fst (fetchJson P u w))"
  shows "isl (fst (mapillary_query_try P accessToken point bbox w))"
  using assms
  by (cases "fetchJson P u w") (auto simp: mapillary_query_try_def isl_def)

lemma google_query_null_of_try:
  "toLngLat lngLat = Inr point \<Longrightarrow>
   isl (fst (google_query_try P apiKey point (with_default 50 radius_opt) w)) \<Longrightarrow>
   fst (google_queryImagery P apiKey lngLat radius_opt w) = Inr None"
  by (auto simp: google_queryImagery_def Let_def isl_def split: prod.splits sum.splits)

lemma mapillary_query_null_of_try:
  "toLngLat lngLat = Inr point \<Longrightarrow>
   createBbox (LngLatInstance point) (with_default 50 radius_opt) = Inr bbox \<Longrightarrow>
   isl (fst (mapillary_query_try P accessToken point bbox w)) \<Longrightarrow>
   fst (mapillary_queryImagery P accessToken lngLat radius_opt w) = Inr None"
  by (auto simp: mapillary_queryImagery_def Let_def isl_def split: prod.splits sum.splits)

lemma google_no_coverage:
  assumes "toLngLat lngLat = Inr point"
    and "google_metadata_url P apiKey point (with_default 50 radius_opt) = Inr u"
    and "fst (fetch P u w) = Inr resp" and "ok resp" and "json resp = Inr metadata"
    and "meta_status metadata \<noteq> ''OK''"
  shows "fst (google_queryImagery P apiKey lngLat radius_opt w) = Inr None"
  using assms
  by (cases "fetch P u w")
     (auto simp: google_queryImagery_def google_query_try_def fetchJson_def Let_def
           split: prod.splits sum.splits option.splits)

lemma mapillary_no_coverage:
  assumes "toLngLat lngLat = Inr point"
    and "createBbox (LngLatInstance point) (with_default 50 radius_opt) = Inr bbox"
    and "mapillary_images_url P accessToken bbox = Inr u"
    and "fst (fetch P u w) = Inr resp" and "ok resp" and "json resp = Inr response"
    and "data response = Some []"
  shows "fst (mapillary_queryImagery P accessToken lngLat radius_opt w) = Inr None"
  using assms
  by (cases "fetch P u w")
     (auto simp: mapillary_queryImagery_def mapillary_query_try_def fetchJson_def Let_def
           split: prod.splits sum.splits option.splits)

text \<open>
  Claim C2: for every location, \<^verbatim>\<open>queryImagery\<close> of either provider never hands a network
  or parsing failure on to its caller: when \<^verbatim>\<open>fetch\<close> rejects, the status is not OK or the
  body does not parse, the call resolves with \<^verbatim>\<open>null\<close>, which is what it resolves with
  when the request completes and reports no coverage; it rejects with nothing at all.
\<close>

theorem queryImagery_failure_is_null:
  fixes P :: "('w, GoogleStreetViewMetadata) platform"
    and Q :: "('w, MapillaryImageResponse) platform"
  assumes "toLngLat lngLat = Inr point"
  shows "(\<forall>u. google_metadata_url P apiKey point (with_default 50 radius_opt) = Inr u \<and> request_failed P u w \<longrightarrow>
            fst (google_queryImagery P apiKey lngLat radius_opt w) = Inr None) \<and>
         (\<forall>u resp metadata.
            google_metadata_url P apiKey point (with_default 50 radius_opt) = Inr u \<and>
            fst (fetch P u w) = Inr resp \<and> ok resp \<and> json resp = Inr metadata \<and>
            meta_status metadata \<noteq> ''OK'' \<longrightarrow>
            fst (google_queryImagery P apiKey lngLat radius_opt w) = Inr None) \<and>
         (\<forall>e. fst (google_queryImagery P apiKey lngLat radius_opt w) \<noteq> Inl e) \<and>
         (\<forall>bbox u. createBbox (LngLatInstance point) (with_default 50 radius_opt) = Inr bbox \<and>
            mapillary_images_url Q accessToken bbox = Inr u \<and> request_failed Q u w \<longrightarrow>
            fst (mapillary_queryImagery Q accessToken lngLat radius_opt w) = Inr None) \<and>
         (\<forall>bbox u resp response.
            createBbox (LngLatInstance point) (with_default 50 radius_opt) = Inr bbox \<and>
            mapillary_images_url Q accessToken bbox = Inr u \<and>
            fst (fetch Q u w) = Inr resp \<and> ok resp \<and> json resp = Inr response \<and>
            data response = Some [] \<longrightarrow>
            fst (mapillary_queryImagery Q accessToken lngLat radius_opt w) = Inr None) \<and>
         (\<forall>e. fst (mapillary_queryImagery Q accessToken lngLat radius_opt w) \<noteq> Inl e)"
proof (intro conjI allI impI)
  fix u assume a: "google_metadata_url P apiKey point (with_default 50 radius_opt) = Inr u \<and> request_failed P u w"
  then have "isl (fst (fetchJson P u w))"
    unfolding request_failed_def by (intro fetchJson_failed) simp
  with a have "isl (fst (google_query_try P apiKey point (with_default 50 radius_opt) w))"
    by (intro google_try_failed) simp_all
  with assms show "fst (google_queryImagery P apiKey lngLat radius_opt w) = Inr None"
    by (intro google_query_null_of_try) simp_all
next
  fix u resp metadata
  assume "google_metadata_url P apiKey point (with_default 50 radius_opt) = Inr u \<and>
            fst (fetch P u w) = Inr resp \<and> ok resp \<and> json resp = Inr metadata \<and>
            meta_status metadata \<noteq> ''OK''"
  with assms show "fst (google_queryImagery P apiKey lngLat radius_opt w) = Inr None"
    using google_no_coverage [of lngLat point P apiKey radius_opt u w resp metadata] by blast
next
  fix e show "fst (google_queryImagery P apiKey lngLat radius_opt w) \<noteq> Inl e"
    using google_query_caught [of P apiKey lngLat radius_opt w] assms(1) by auto
next
  fix bbox u
  assume a: "createBbox (LngLatInstance point) (with_default 50 radius_opt) = Inr bbox \<and>
            mapillary_images_url Q accessToken bbox = Inr u \<and> request_failed Q u w"
  then have "isl (fst (fetchJson Q u w))"
    unfolding request_failed_def by (intro fetchJson_failed) simp
  with a have "isl (fst (mapillary_query_try Q accessToken point bbox w))"
    by (intro mapillary_try_failed) simp_all
  with assms a show "fst (mapillary_queryImagery Q accessToken lngLat radius_opt w) = Inr None"
    by (intro mapillary_query_null_of_try [where bbox = bbox]) simp_all
next
  fix bbox u resp response
  assume "createBbox (LngLatInstance point) (with_default 50 radius_opt) = Inr bbox \<and>
            mapillary_images_url Q accessToken bbox = Inr u \<and>
            fst (fetch Q u w) = Inr resp \<and> ok resp \<and> json resp = Inr response \<and>
            data response = Some []"
  with assms show "fst (mapillary_queryImagery Q accessToken lngLat radius_opt w) = Inr None"
    using mapillary_no_coverage [of lngLat point radius_opt bbox Q accessToken u w resp response]
    by blast
next
  fix e show "fst (mapillary_queryImagery Q accessToken lngLat radius_opt w) \<noteq> Inl e"
    using mapillary_query_caught [of Q accessToken lngLat radius_opt w] assms(1) by auto
qed

theorem queryImagery_failure_is_null_witness:
  "toLngLat (LngLatInstance san_francisco) = Inr san_francisco \<and>
   request_failed (offline_platform :: (nat, GoogleStreetViewMetadata) platform) [] 0 \<and>
   fst (google_queryImagery offline_platform ''test-api-key'' (LngLatInstance san_francisco) None 0)
     = Inr None \<and>
   fst (mapillary_queryImagery offline_platform ''test-token'' (LngLatInstance san_francisco) None 0)
     = Inr None \<and>
   fst (google_queryImagery
          (answering_platform \<lparr>meta_status = ''ZERO_RESULTS'', meta_copyright = None,
             meta_date = None, meta_location = None, pano_id = None\<rparr>)
          ''test-api-key'' (LngLatInstance san_francisco) None 0) = Inr None"
proof -
  have t: "toLngLat (LngLatInstance san_francisco) = Inr san_francisco" by simp
  have f: "\<And>u. request_failed (offline_platform :: (nat, 'j) platform) u 0"
    by (simp add: request_failed_def offline_platform_def)
  have gu: "\<exists>u. google_metadata_url (offline_platform :: (nat, GoogleStreetViewMetadata) platform)
      ''test-api-key'' san_francisco (with_default 50 None) = Inr u"
    by (simp add: google_metadata_url_def buildUrl_def offline_platform_def plain_url_def)
  have bb: "\<exists>bbox. createBbox (LngLatInstance san_francisco) (with_default 50 None) = Inr bbox"
    by (simp add: createBbox_def Let_def)
  have mu: "\<And>bbox. \<exists>u. mapillary_images_url (offline_platform :: (nat, MapillaryImageResponse) platform)
      ''test-token'' bbox = Inr u"
    by (simp add: mapillary_images_url_def buildUrl_def offline_platform_def plain_url_def)
  note T = queryImagery_failure_is_null [OF t, of offline_platform "''test-api-key''" None 0
      offline_platform "''test-token''"]
  from T gu f have g: "fst (google_queryImagery offline_platform ''test-api-key''
      (LngLatInstance san_francisco) None 0) = Inr None"
    by blast
  from bb obtain bbox where bbox:
    "createBbox (LngLatInstance san_francisco) (with_default 50 None) = Inr bbox"
    by blast
  from mu [of bbox] obtain u where u:
    "mapillary_images_url (offline_platform :: (nat, MapillaryImageResponse) platform)
       ''test-token'' bbox = Inr u"
    by blast
  from T have "createBbox (LngLatInstance san_francisco) (with_default 50 None) = Inr bbox \<and>
      mapillary_images_url (offline_platform :: (nat, MapillaryImageResponse) platform)
        ''test-token'' bbox = Inr u \<and>
      request_failed (offline_platform :: (nat, MapillaryImageResponse) platform) u 0 \<longrightarrow>
      fst (mapillary_queryImagery offline_platform ''test-token''
        (LngLatInstance san_francisco) None 0) = Inr None"
    by blast
  with bbox u f have m: "fst (mapillary_queryImagery offline_platform ''test-token''
      (LngLatInstance san_francisco) None 0) = Inr None"
    by blast
  have z: "fst (google_queryImagery
          (answering_platform \<lparr>meta_status = ''ZERO_RESULTS'', meta_copyright = None,
             meta_date = None, meta_location = None, pano_id = None\<rparr>)
          ''test-api-key'' (LngLatInstance san_francisco) None 0) = Inr None"
    by (simp add: google_queryImagery_def google_query_try_def google_metadata_url_def
      buildUrl_def fetchJson_def answering_platform_def plain_url_def isConfigured_def
      with_default_def)
  from t f g m z show ?thesis by blast
qed

section \<open>The loading flag\<close>

subsection \<open>Frame lemmas\<close>

lemma with_ui_fields [simp]:
  "state (with_ui f c) = state c"
  "inflight (with_ui f c) = inflight c"
  "requests (with_ui f c) = requests c"
  "emitted (with_ui f c) = emitted c"
  "rejected (with_ui f c) = rejected c"
  "googleProvider (with_ui f c) = googleProvider c"
  "mapillaryProvider (with_ui f c) = mapillaryProvider c"
  "ctl_maxSearchRadius (with_ui f c) = ctl_maxSearchRadius c"
  "ctl_clickToView (with_ui f c) = ctl_clickToView c"
  "ctl_showMarker (with_ui f c) = ctl_showMarker c"
  "ui (with_ui f c) = map_option f (ui c)"
  by (simp_all add: with_ui_def)

lemma emit_fields [simp]:
  "state (emit ev err c) = state c"
  "inflight (emit ev err c) = inflight c"
  "requests (emit ev err c) = requests c"
  "emitted (emit ev err c) = emitted c @ [(ev, state c, err)]"
  "rejected (emit ev err c) = rejected c"
  "googleProvider (emit ev err c) = googleProvider c"
  "mapillaryProvider (emit ev err c) = mapillaryProvider c"
  "ctl_maxSearchRadius (emit ev err c) = ctl_maxSearchRadius c"
  "ctl_clickToView (emit ev err c) = ctl_clickToView c"
  "ctl_showMarker (emit ev err c) = ctl_showMarker c"
  "ui (emit ev err c) = ui c"
  by (simp_all add: emit_def)

lemma showNoData_fields [simp]:
  "state (showNoData m c) = state c"
  "inflight (showNoData m c) = inflight c"
  "requests (showNoData m c) = requests c"
  "emitted (showNoData m c) = emitted c"
  "rejected (showNoData m c) = rejected c"
  by (simp_all add: showNoData_def)

lemma getCurrentProvider_cong:
  "activeProvider (state c') = activeProvider (state c) \<Longrightarrow> googleProvider c' = googleProvider c \<Longrightarrow>
   mapillaryProvider c' = mapillaryProvider c \<Longrightarrow> getCurrentProvider c' = getCurrentProvider c"
  by (simp add: getCurrentProvider_def)

subsection \<open>showStreetView\<close>


lemma showStreetView_no_provider:
  assumes "getCurrentProvider c = None"
  shows "state (showStreetView l c) = state c"
    and "inflight (showStreetView l c) = inflight c"
    and "requests (showStreetView l c) = requests c"
    and "emitted (showStreetView l c) = emitted c"
  using assms by (simp_all add: showStreetView_def split: sum.splits)


subsection \<open>resume\<close>


lemma settled_fields [simp]:
  "state (settled i c) = state c"
  "inflight (settled i c) = remove_nth i (inflight c)"
  "requests (settled i c) = requests c"
  "emitted (settled i c) = emitted c"
  "ui (settled i c) = ui c"
  by (simp_all add: settled_def)

lemma lookup_found_fields [simp]:
  "loading (state (lookup_found p img c)) = False"
  "inflight (lookup_found p img c) = inflight c"
  by (simp_all add: lookup_found_def Let_def)

lemma lookup_missed_fields [simp]:
  "loading (state (lookup_missed c)) = False"
  "inflight (lookup_missed c) = inflight c"
  by (simp_all add: lookup_missed_def Let_def)

lemma lookup_failed_fields [simp]:
  "loading (state (lookup_failed e c)) = False"
  "inflight (lookup_failed e c) = inflight c"
  by (simp_all add: lookup_failed_def Let_def)

lemma search_fields [simp]:
  "loading (state (search_found p img c)) = loading (state c)"
  "inflight (search_found p img c) = inflight c"
  "loading (state (search_missed c)) = loading (state c)"
  "inflight (search_missed c) = inflight c"
  "loading (state (search_failed e c)) = loading (state c)"
  "inflight (search_failed e c) = inflight c"
  by (simp_all add: search_found_def search_missed_def search_failed_def Let_def)



subsection \<open>The other methods\<close>











lemmas control_defs =
  new_control_def onAdd_def expand_def collapse_def toggle_def handleMapClick_def
  handleHeadingChange_def showStreetView_def setProvider_def clearStreetView_def
  searchNearest_def resume_def settled_def remove_nth_def lookup_found_def lookup_missed_def
  lookup_failed_def showNoData_def updatePanelPosition_def getCurrentProvider_def
  getAvailableProviders_def emit_def with_ui_def with_marker_def test_options_def
  lookups_in_flight_def provider_instance_def





section \<open>Notifications\<close>

lemma handleHeadingChange_effect:
  "state (handleHeadingChange h c) = (state c)\<lparr>st_heading := h\<rparr> \<and>
   emitted (handleHeadingChange h c) = emitted c @ [(HeadingChange, (state c)\<lparr>st_heading := h\<rparr>, None)]"
  by (simp add: handleHeadingChange_def Let_def)


lemma statechange_follows_other_mutations:
  "last (emitted (clearStreetView c)) = (StateChange, state (clearStreetView c), None)"
  "activeProvider (state c) \<noteq> p \<Longrightarrow>
     last (emitted (setProvider p c)) = (StateChange, state (setProvider p c), None)"
  "collapsed (state c) \<Longrightarrow> last (emitted (expand c)) = (StateChange, state (expand c), None)"
  "\<not> collapsed (state c) \<Longrightarrow>
     last (emitted (collapse c)) = (StateChange, state (collapse c), None)"
  "i < length (inflight c) \<Longrightarrow> settles (inflight c ! i) out \<Longrightarrow>
     last (emitted (resume i out c)) = (StateChange, state (resume i out c), None)"
  "i < length (inflight c) \<Longrightarrow> inflight c ! i = AwaitSearchNearest q \<Longrightarrow>
     last (emitted (resume i out c)) = (StateChange, state (resume i out c), None)"
proof -
  show "last (emitted (clearStreetView c)) = (StateChange, state (clearStreetView c), None)"
    by (simp add: clearStreetView_def Let_def)
  show "activeProvider (state c) \<noteq> p \<Longrightarrow>
     last (emitted (setProvider p c)) = (StateChange, state (setProvider p c), None)"
    by (simp add: setProvider_def Let_def)
  show "collapsed (state c) \<Longrightarrow> last (emitted (expand c)) = (StateChange, state (expand c), None)"
    by (simp add: expand_def Let_def)
  show "\<not> collapsed (state c) \<Longrightarrow>
     last (emitted (collapse c)) = (StateChange, state (collapse c), None)"
    by (simp add: collapse_def Let_def)
  show "i < length (inflight c) \<Longrightarrow> settles (inflight c ! i) out \<Longrightarrow>
     last (emitted (resume i out c)) = (StateChange, state (resume i out c), None)"
    by (cases "inflight c ! i"; cases out)
       (auto simp: resume_def lookup_found_def lookup_missed_def lookup_failed_def Let_def
          split: option.splits)
  show "i < length (inflight c) \<Longrightarrow> inflight c ! i = AwaitSearchNearest q \<Longrightarrow>
     last (emitted (resume i out c)) = (StateChange, state (resume i out c), None)"
    by (cases out)
       (auto simp: resume_def search_found_def search_missed_def search_failed_def Let_def
          split: option.splits)
qed

section \<open>Switching providers\<close>

text \<open>
  Claim C7: when \<^verbatim>\<open>setProvider\<close> is called with a provider other than the active one
  while the state holds a location, \<^verbatim>\<open>showStreetView\<close> is called at once at that location,
  with the new provider active: when the control holds an instance of that provider its
  \<^verbatim>\<open>queryImagery\<close> is called for the location, before \<^verbatim>\<open>providerchange\<close> is emitted.
\<close>

theorem setProvider_triggers_lookup:
  assumes "activeProvider (state c) \<noteq> p" and "st_location (state c) = Some loc"
  shows "setProvider p c =
           emit StateChange None (emit ProviderChange None
             (showStreetView (LngLatInstance loc)
                (with_ui (tabs_setActive p) (c\<lparr>state := (state c)\<lparr>activeProvider := p\<rparr>\<rparr>)))) \<and>
         activeProvider (state (setProvider p c)) = p \<and>
         (if provider_instance p c
          then requests (setProvider p c) = requests c @ [QueryImagery p loc] \<and>
               inflight (setProvider p c) = inflight c @ [AwaitQueryImagery p loc] \<and>
               st_location (state (setProvider p c)) = Some loc \<and>
               loading (state (setProvider p c)) \<and>
               map fst (emitted (setProvider p c)) =
                 map fst (emitted c) @ [LocationChange, ProviderChange, StateChange]
          else requests (setProvider p c) = requests c \<and>
               inflight (setProvider p c) = inflight c \<and>
               map fst (emitted (setProvider p c)) =
                 map fst (emitted c) @ [ProviderChange, StateChange])"
  using assms
  by (cases p)
     (auto simp: setProvider_def showStreetView_def getCurrentProvider_def provider_instance_def
        showNoData_def emit_def with_ui_def Let_def)

theorem setProvider_triggers_lookup_witness:
  "activeProvider (state (handleMapClick san_francisco (expand (onAdd (new_control test_options)))))
     \<noteq> Mapillary \<and>
   st_location (state (handleMapClick san_francisco (expand (onAdd (new_control test_options)))))
     = Some san_francisco \<and>
   provider_instance Mapillary
     (handleMapClick san_francisco (expand (onAdd (new_control test_options)))) \<and>
   requests (setProvider Mapillary
     (handleMapClick san_francisco (expand (onAdd (new_control test_options))))) =
     [QueryImagery Google san_francisco, QueryImagery Mapillary san_francisco]"
  using setProvider_triggers_lookup
    [of "handleMapClick san_francisco (expand (onAdd (new_control test_options)))" Mapillary
        san_francisco]
  by (simp add: control_defs Let_def)

section \<open>Expanding and collapsing\<close>

text \<open>
  Claim C9: \<^verbatim>\<open>expand\<close> and \<^verbatim>\<open>collapse\<close> change nothing of the state record but the
  \<^verbatim>\<open>collapsed\<close> flag, and nothing else but the panel; a call that changes the flag emits
  its own \<^verbatim>\<open>expand\<close> or \<^verbatim>\<open>collapse\<close> notification, then \<^verbatim>\<open>statechange\<close>.
\<close>

theorem expand_collapse_frame:
  "state (expand c) = (state c)\<lparr>collapsed := False\<rparr> \<and>
   state (collapse c) = (state c)\<lparr>collapsed := True\<rparr> \<and>
   requests (expand c) = requests c \<and> inflight (expand c) = inflight c \<and>
   requests (collapse c) = requests c \<and> inflight (collapse c) = inflight c \<and>
   ui (expand c) =
     (if collapsed (state c)
      then map_option (\<lambda>u. u\<lparr>panel_expanded := True, container_active := True,
                              panel_positioned := True\<rparr>) (ui c)
      else ui c) \<and>
   ui (collapse c) =
     (if collapsed (state c) then ui c
      else map_option (\<lambda>u. u\<lparr>panel_expanded := False, container_active := False\<rparr>) (ui c)) \<and>
   emitted (expand c) =
     emitted c @ (if collapsed (state c)
                  then [(Expand, (state c)\<lparr>collapsed := False\<rparr>, None),
                        (StateChange, (state c)\<lparr>collapsed := False\<rparr>, None)]
                  else []) \<and>
   emitted (collapse c) =
     emitted c @ (if collapsed (state c) then []
                  else [(Collapse, (state c)\<lparr>collapsed := True\<rparr>, None),
                        (StateChange, (state c)\<lparr>collapsed := True\<rparr>, None)])"
  by (cases "ui c")
     (simp_all add: expand_def collapse_def emit_def with_ui_def updatePanelPosition_def Let_def)

theorem expand_collapse_frame_witness:
  "collapsed (state (onAdd (new_control test_options))) \<and>
   state (expand (onAdd (new_control test_options))) =
     (state (onAdd (new_control test_options)))\<lparr>collapsed := False\<rparr> \<and>
   map fst (emitted (expand (onAdd (new_control test_options)))) = [Expand, StateChange] \<and>
   map fst (emitted (collapse (expand (onAdd (new_control test_options))))) =
     [Expand, StateChange, Collapse, StateChange] \<and>
   collapsed (state (collapse (expand (onAdd (new_control test_options)))))"
  using expand_collapse_frame [of "onAdd (new_control test_options)"]
    expand_collapse_frame [of "expand (onAdd (new_control test_options))"]
  by (simp add: control_defs Let_def)

text \<open>
  Claim C10: \<^verbatim>\<open>setProvider\<close> with the active provider, \<^verbatim>\<open>expand\<close> on an expanded panel
  and \<^verbatim>\<open>collapse\<close> on a collapsed one leave the whole control as it is, traces of
  notifications and provider calls included; each of the three operations is
  idempotent.
\<close>

theorem noop_and_idempotent:
  "setProvider (activeProvider (state c)) c = c \<and>
   (\<not> collapsed (state c) \<longrightarrow> expand c = c) \<and>
   (collapsed (state c) \<longrightarrow> collapse c = c) \<and>
   setProvider p (setProvider p c) = setProvider p c \<and>
   expand (expand c) = expand c \<and>
   collapse (collapse c) = collapse c"
proof -
  have sp: "activeProvider (state (setProvider p c)) = p"
    by (cases "st_location (state c)"; cases "toLngLat (LngLatInstance (the (st_location (state c))))")
       (auto simp: setProvider_def showStreetView_def showNoData_def emit_def with_ui_def Let_def
          split: option.splits)
  have ex: "\<not> collapsed (state (expand c))"
    by (simp add: expand_def emit_def with_ui_def updatePanelPosition_def Let_def)
  have co: "collapsed (state (collapse c))"
    by (simp add: collapse_def emit_def with_ui_def Let_def)
  have a: "\<And>c. setProvider (activeProvider (state c)) c = c"
    by (simp add: setProvider_def)
  have b: "\<And>c. \<not> collapsed (state c) \<Longrightarrow> expand c = c"
    by (simp add: expand_def)
  have d: "\<And>c. collapsed (state c) \<Longrightarrow> collapse c = c"
    by (simp add: collapse_def)
  from a [of "setProvider p c"] sp have "setProvider p (setProvider p c) = setProvider p c"
    by simp
  with a [of c] b [of c] d [of c] b [OF ex] d [OF co] show ?thesis by simp
qed

theorem noop_and_idempotent_witness:
  "\<not> collapsed (state (expand (onAdd (new_control test_options)))) \<and>
   expand (expand (onAdd (new_control test_options))) = expand (onAdd (new_control test_options)) \<and>
   collapsed (state (onAdd (new_control test_options))) \<and>
   collapse (onAdd (new_control test_options)) = onAdd (new_control test_options) \<and>
   activeProvider (state (onAdd (new_control test_options))) = Google \<and>
   setProvider Google (onAdd (new_control test_options)) = onAdd (new_control test_options) \<and>
   emitted (setProvider Google (onAdd (new_control test_options))) = []"
proof -
  note T = noop_and_idempotent [of "expand (onAdd (new_control test_options))" Google]
    noop_and_idempotent [of "onAdd (new_control test_options)" Google]
  have 1: "\<not> collapsed (state (expand (onAdd (new_control test_options))))"
    by (simp add: control_defs Let_def)
  have 2: "collapsed (state (onAdd (new_control test_options)))"
    by (simp add: control_defs Let_def)
  have 3: "activeProvider (state (onAdd (new_control test_options))) = Google"
    by (simp add: control_defs Let_def)
  have 4: "emitted (onAdd (new_control test_options)) = []"
    by (simp add: control_defs Let_def)
  from T 1 2 3 4 show ?thesis by (simp del: One_nat_def)
qed

end
